theory Spec2Isabelle
  imports Complex_Main "HOL-Library.Sublist" "HOL-Library.List_Lexorder"
begin

section \<open>Strings\<close>

text \<open>
  A Python \<open>str\<close> is a sequence of Unicode code points; it is modelled as the list of
  these code points. ASCII literals of the source are written through \<open>ascii\<close>, the other
  literals (the keyword tables) as the code points that the source file holds.
\<close>

type_synonym pystr = "nat list"

definition ascii :: "string \<Rightarrow> pystr" where
  "ascii s = map of_char s"

text \<open>Python's \<open>k in d\<close> on strings: \<open>k\<close> occurs in \<open>d\<close> as a contiguous block.\<close>

fun str_contains :: "'a list \<Rightarrow> 'a list \<Rightarrow> bool" where
  "str_contains k [] = (k = [])"
| "str_contains k (x # xs) = (prefix k (x # xs) \<or> str_contains k xs)"

section \<open>Transactions and keyword categorization\<close>

text \<open>
  The dictionaries built by \<open>parse_transactions\<close> in \<open>extract_pdf_data.py\<close>: keys
  \<open>date\<close>, \<open>description\<close>, \<open>amount\<close>, and the key \<open>category\<close> that
  \<open>categorize_transactions\<close> adds (\<open>None\<close> while the key is absent).
\<close>

record transaction =
  date :: pystr
  description :: pystr
  amount :: real
  category :: "pystr option"

text \<open>The keyword table of \<open>categorize_transactions\<close>, in the order of the dict literal.\<close>

definition categories :: "(pystr \<times> pystr list) list" where
  "categories =
   [(ascii ''Food & Dining'',
     [[200, 167, 234, 194, 170, 8805], [200, 163, 252], [200, 163, 8804],
      [200, 8747, 8226, 193, 239, 8706, 194, 227, 251],
      [202, 242, 252, 194, 8721, 165, 194, 214, 227],
      [8240, 230, 248, 194, 224, 169, 194, 239, 220, 194, 8747, 243],
      [203, 8706, 214, 194, 8719, 199], ascii ''7-11'', [194, 214, 174, 194, 198, 8706],
      [193, 230, 233, 200, 163, 252], [200, 167, 234], [200, 163, 216],
      [194, 237, 241, 194, 239, 176]]),
    (ascii ''Transportation'',
     [[202, 231, 8721, 200, 197, 227], [194, 214, 168, 203, 170, 228],
      [203, 174, 224, 193, 174, 227, 203, 170, 228], [194, 228, 8224, 202, 8804, 960],
      [194, 197, 250, 203, 170, 228], ascii ''UBER'', [202, 8804, 960, 193, 180, 244],
      [8240, 8747, 167, 200, 196, 246], [200, 180, 242, 200, 234, 181],
      [194, 232, 8734, 200, 234, 181], [194, 198, 162, 200, 197, 227]]),
    (ascii ''Shopping'',
     [[193, 244, 230, 203, 8804, 174], [203, 8805, 186, 193, 226, 169],
      [202, 250, 231, 200, 163, 230], [200, 245, 170, 194, 244, 174],
      [193, 8706, 8804, 203, 8805, 186], [194, 239, 220, 194, 252, 233], ascii ''AMAZON'',
      [203, 8804, 8721], [203, 8805, 186], [194, 239, 220, 194, 8747, 243],
      [194, 8719, 199, 194, 8224, 165]]),
    (ascii ''Entertainment'',
     [[200, 245, 170, 194, 937, 177], [200, 197, 228, 202, 224, 8804],
      [194, 174, 245, 202, 174, 199], ascii ''KTV'', [194, 197, 8226, 203, 8747, 180],
      [200, 197, 227, 194, 227, 239], [202, 245, 8719, 194, 8747, 243],
      [200, 252, 8805, 202, 174, 199]]),
    (ascii ''Bills & Utilities'',
     [[200, 245, 170, 203, 8804, 170], [202, 8734, 165, 203, 8804, 170],
      [193, 236, 182, 202, 241, 216], [200, 245, 170, 8240, 248, 176],
      [8240, 248, 249, 200, 246, 8482], [200, 228, 196, 203, 176, 229],
      [203, 8804, 170, 193, 238, 174], [194, 8719, 8805, 194, 241, 198],
      [193, 960, 8805, 203, 8804, 170]]),
    (ascii ''Healthcare'',
     [[200, 220, 180, 200, 244, 162], [203, 174, 8747, 202, 226, 196],
      [203, 243, 8226, 194, 177, 196], [194, 197, 8226, 194, 8747, 8721],
      [200, 220, 180, 193, 244, 199], [193, 226, 244, 193, 223, 235],
      [193, 250, 186, 193, 223, 235]]),
    (ascii ''Education'',
     [[194, 8800, 8719, 202, 8224, 176], [203, 163, 250, 193, 248, 237],
      [202, 245, 8719, 194, 8747, 243], [202, 241, 225, 194, 214, 8721],
      [202, 239, 244, 203, 199, 8804], [194, 8800, 8719, 203, 8804, 170]]),
    (ascii ''Travel'',
     [[200, 163, 216, 194, 8747, 243], [202, 169, 252, 193, 8226, 174],
      [202, 243, 214, 200, 197, 228], [8240, 937, 232, 194, 198, 248],
      [202, 243, 214, 203, 176, 229], ascii ''HOTEL'']),
    (ascii ''Cash/ATM'',
     [[202, 232, 234, 202, 168, 230], ascii ''ATM'', [193, 232, 230, 200, 225, 235],
      [203, 937, 226, 194, 8719, 8805], [194, 229, 216, 202, 168, 230]]),
    (ascii ''Other'', [])]"

text \<open>
  The two nested loops shared by \<open>categorize_transactions\<close> and
  \<open>improve_categorization\<close>: the inner loop over the keywords of one category stops at the
  first keyword found in the description, the outer loop skips the category \<open>Other\<close> and
  stops at the first category whose inner loop succeeded.
\<close>

fun keyword_loop :: "pystr list \<Rightarrow> pystr \<Rightarrow> bool" where
  "keyword_loop [] d = False"
| "keyword_loop (k # ks) d = (if str_contains k d then True else keyword_loop ks d)"

fun category_loop :: "(pystr \<times> pystr list) list \<Rightarrow> pystr \<Rightarrow> pystr option" where
  "category_loop [] d = None"
| "category_loop ((c, kws) # rest) d =
     (if c = ascii ''Other'' then category_loop rest d
      else if keyword_loop kws d then Some c
      else category_loop rest d)"

definition assign_category :: "(pystr \<times> pystr list) list \<Rightarrow> pystr \<Rightarrow> pystr" where
  "assign_category table d =
     (case category_loop table d of Some c \<Rightarrow> c | None \<Rightarrow> ascii ''Other'')"

definition categorize_transactions :: "transaction list \<Rightarrow> transaction list" where
  "categorize_transactions ts =
     map (\<lambda>t. t\<lparr>category := Some (assign_category categories (description t))\<rparr>) ts"

section \<open>Floating-point numbers\<close>

text \<open>
  A Python float is a double; it is modelled as the real number it is. \<open>to_double\<close> rounds
  a real number to the nearest double, a tie to the one with the even significand: 53
  significant bits, the last of which weighs \<open>2 powr (e - 52)\<close> for a number between
  \<open>2 powr e\<close> and \<open>2 powr (e + 1)\<close>. The range of the exponent is not bounded here:
  overflow to infinity and the subnormal numbers are left out.
\<close>

definition round_half_even :: "real \<Rightarrow> int" where
  "round_half_even x =
     (let f = \<lfloor>x\<rfloor>
      in if x - of_int f < 1 / 2 then f
         else if 1 / 2 < x - of_int f then f + 1
         else if even f then f else f + 1)"

definition to_double :: "real \<Rightarrow> real" where
  "to_double x =
     (if x = 0 then 0
      else (let ulp = 2 powr (of_int \<lfloor>log 2 \<bar>x\<bar>\<rfloor> - 52)
            in of_int (round_half_even (x / ulp)) * ulp))"

text \<open>
  The sum of a short column as \<open>numpy\<close> and \<open>pandas\<close> compute it: the values are added one
  after the other and every addition rounds. The mean divides that sum by the number of
  values.
\<close>

definition float_sum :: "real list \<Rightarrow> real" where
  "float_sum xs = foldl (\<lambda>s x. to_double (s + x)) 0 xs"

definition float_mean :: "real list \<Rightarrow> real" where
  "float_mean xs = to_double (float_sum xs / real (length xs))"

section \<open>Parsing transactions out of the extracted text\<close>

datatype py_error = ValueError | TypeError | KeyError | CalledProcessError

text \<open>
  \<open>str.strip()\<close> removes leading and trailing whitespace; \<open>py_isspace\<close> lists the code
  points for which \<open>str.isspace\<close> holds.
\<close>

definition py_isspace :: "nat \<Rightarrow> bool" where
  "py_isspace c \<longleftrightarrow>
     (9 \<le> c \<and> c \<le> 13) \<or> (28 \<le> c \<and> c \<le> 32) \<or> c = 133 \<or> c = 160 \<or> c = 5760 \<or>
     (8192 \<le> c \<and> c \<le> 8202) \<or> c = 8232 \<or> c = 8233 \<or> c = 8239 \<or> c = 8287 \<or> c = 12288"

definition strip :: "pystr \<Rightarrow> pystr" where
  "strip s = rev (dropWhile py_isspace (rev (dropWhile py_isspace s)))"

text \<open>
  The amount string. \<open>re.sub(r'[^\d,.]', '', amount_str)\<close> keeps the decimal digits, the
  commas (code point 44) and the dots (46); \<open>.replace(',', '')\<close> then drops the commas.
  Which code points are decimal digits (\<open>\d\<close>, Unicode category Nd) and what their values
  are is a table of the Python runtime: it is the parameter \<open>dv\<close>, \<open>dv c = Some n\<close> for a
  digit \<open>c\<close> of value \<open>n\<close>.
\<close>

definition clean_amount :: "(nat \<Rightarrow> nat option) \<Rightarrow> pystr \<Rightarrow> pystr" where
  "clean_amount dv s = filter (\<lambda>c. dv c \<noteq> None \<or> c = 44 \<or> c = 46) s"

definition remove_commas :: "pystr \<Rightarrow> pystr" where
  "remove_commas s = filter (\<lambda>c. c \<noteq> 44) s"

definition digits_value :: "(nat \<Rightarrow> nat option) \<Rightarrow> pystr \<Rightarrow> nat" where
  "digits_value dv s = foldl (\<lambda>acc c. 10 * acc + (case dv c of Some n \<Rightarrow> n | None \<Rightarrow> 0)) 0 s"

text \<open>
  \<open>float(s)\<close> at its only call site, where \<open>s\<close> holds nothing but decimal digits and dots:
  the conversion succeeds when there is at least one digit and at most one dot, with the
  double nearest to the decimal number, and raises \<open>ValueError\<close> otherwise. Strings with
  other characters do not reach the call; the model answers \<open>ValueError\<close> for them.
\<close>

definition py_float :: "(nat \<Rightarrow> nat option) \<Rightarrow> pystr \<Rightarrow> py_error + real" where
  "py_float dv s =
     (let ip = takeWhile (\<lambda>c. c \<noteq> 46) s;
          fp = drop 1 (dropWhile (\<lambda>c. c \<noteq> 46) s)
      in if (\<exists>c\<in>set s. c \<noteq> 46 \<and> dv c = None) \<or> 46 \<in> set fp \<or> (ip = [] \<and> fp = [])
         then Inl ValueError
         else Inr (to_double
                     (real (digits_value dv ip) + real (digits_value dv fp) / 10 ^ length fp)))"

text \<open>
  The six regular expressions of \<open>parse_transactions\<close>, in the order of the list
  \<open>patterns\<close>; \<open>D\<close> stands for the description group
  \<^verbatim>\<open>([\u4e00-\u9fff\w\s\-\*\.]+?)\<close> and \<open>A\<close> for the amount group
  \<^verbatim>\<open>([\d,]+\.?\d*)\<close>:
  \<^item> \<open>Month_day\<close>: \<^verbatim>\<open>(\d{2}/\d{2})\s+D\s+A\<close>;
  \<^item> \<open>Year_month_day\<close>: \<^verbatim>\<open>(\d{4}/\d{2}/\d{2})\s+D\s+A\<close>;
  \<^item> \<open>Transaction_code\<close>: \<^verbatim>\<open>(\d{2}/\d{2})\s+(\d+)\s+D\s+A\<close>, with four groups;
  \<^item> \<open>Negative_amount\<close>: \<^verbatim>\<open>(\d{2}/\d{2})\s+D\s+\-?A\<close>, the minus sign outside the group;
  \<^item> \<open>Generic\<close>: \<^verbatim>\<open>(\d{1,2}/\d{1,2})\s+(.+?)\s+A\<close>;
  \<^item> \<open>Extra_spaces\<close>: \<^verbatim>\<open>(\d{2}/\d{2})\s{2,}D\s{2,}A\<close>.

  Matching is done by the library: \<open>findall p text\<close> stands for
  \<open>re.findall(pattern, text, re.MULTILINE | re.DOTALL)\<close>, the list of the tuples of groups
  of every match.
\<close>

datatype pattern =
  Month_day | Year_month_day | Transaction_code | Negative_amount | Generic | Extra_spaces

definition patterns :: "pattern list" where
  "patterns =
     [Month_day, Year_month_day, Transaction_code, Negative_amount, Generic, Extra_spaces]"

text \<open>What the script prints while parsing, one constructor for each \<open>print\<close>.\<close>

datatype parse_output =
    Debug_text pystr
  | Trying_pattern nat pattern
  | Found_matches nat nat
  | Added_transaction pystr pystr real
  | Error_parsing_match "pystr list"
  | Total_unique nat

text \<open>
  The body of the loop over the matches, with its \<open>try\<close>/\<open>except\<close>: the transactions it
  appends (one or none) and what it prints.
\<close>

definition parse_match ::
  "(nat \<Rightarrow> nat option) \<Rightarrow> pystr list \<Rightarrow> transaction list \<times> parse_output list" where
  "parse_match dv m =
     (if 3 \<le> length m then
        (let date_str = m ! 0;
             desc = strip (m ! (length m - 2));
             amount_str = clean_amount dv (strip (m ! (length m - 1)))
         in if amount_str \<noteq> [] then
              (case py_float dv (remove_commas amount_str) of
                 Inl e \<Rightarrow> ([], [Error_parsing_match m])
               | Inr a \<Rightarrow>
                   ([\<lparr>date = date_str, description = desc, amount = a, category = None\<rparr>],
                    [Added_transaction date_str (take 30 desc) a]))
            else ([], []))
      else ([], []))"

definition match_step ::
  "(nat \<Rightarrow> nat option) \<Rightarrow> transaction list \<times> parse_output list \<Rightarrow> pystr list
     \<Rightarrow> transaction list \<times> parse_output list" where
  "match_step dv st m =
     (case st of (transactions, out) \<Rightarrow>
        (case parse_match dv m of (new, printed) \<Rightarrow> (transactions @ new, out @ printed)))"

definition pattern_step ::
  "(nat \<Rightarrow> nat option) \<Rightarrow> (pattern \<Rightarrow> pystr \<Rightarrow> pystr list list) \<Rightarrow> pystr
     \<Rightarrow> transaction list \<times> parse_output list \<Rightarrow> nat \<times> pattern
     \<Rightarrow> transaction list \<times> parse_output list" where
  "pattern_step dv findall text st np =
     (case st of (transactions, out) \<Rightarrow>
        (case np of (pattern_num, p) \<Rightarrow>
           (let matches = findall p text
            in foldl (match_step dv)
                 (transactions,
                  out @ [Trying_pattern pattern_num p, Found_matches (length matches) pattern_num])
                 matches)))"

definition collect_matches ::
  "(nat \<Rightarrow> nat option) \<Rightarrow> (pattern \<Rightarrow> pystr \<Rightarrow> pystr list list) \<Rightarrow> pystr
     \<Rightarrow> transaction list \<times> parse_output list" where
  "collect_matches dv findall text =
     foldl (pattern_step dv findall text) ([], [Debug_text (take 2000 text)])
       (zip [1 ..< Suc (length patterns)] patterns)"

text \<open>
  The removal of duplicates at the end of \<open>parse_transactions\<close>: a loop over the
  transactions with the set \<open>seen\<close> of the keys met so far and the list
  \<open>unique_transactions\<close>.
\<close>

definition dedup_step :: "('a \<Rightarrow> 'k) \<Rightarrow> 'a list \<times> 'k set \<Rightarrow> 'a \<Rightarrow> 'a list \<times> 'k set" where
  "dedup_step key st t =
     (case st of (unique, seen) \<Rightarrow>
        if key t \<notin> seen then (unique @ [t], insert (key t) seen) else (unique, seen))"

definition txn_key :: "transaction \<Rightarrow> pystr \<times> pystr \<times> real" where
  "txn_key t = (date t, description t, amount t)"

definition remove_duplicates :: "transaction list \<Rightarrow> transaction list" where
  "remove_duplicates ts = fst (foldl (dedup_step txn_key) ([], {}) ts)"

definition parse_transactions ::
  "(nat \<Rightarrow> nat option) \<Rightarrow> (pattern \<Rightarrow> pystr \<Rightarrow> pystr list list) \<Rightarrow> pystr
     \<Rightarrow> transaction list \<times> parse_output list" where
  "parse_transactions dv findall text =
     (case collect_matches dv findall text of (transactions, out) \<Rightarrow>
        (let unique_transactions = remove_duplicates transactions
         in (unique_transactions, out @ [Total_unique (length unique_transactions)])))"

section \<open>The cleaning pass of \<open>clean_analysis.py\<close>\<close>

text \<open>
  A row of the data frame read from the CSV file. A cell that is empty in the file is NaN in
  the frame; it is \<open>None\<close> here. The columns \<open>date\<close>, \<open>description\<close> and \<open>category\<close>
  hold strings, \<open>amount\<close> and \<open>amount_abs\<close> numbers.
\<close>

record row =
  row_date :: "pystr option"
  row_description :: "pystr option"
  row_amount :: "real option"
  row_amount_abs :: "real option"
  row_category :: "pystr option"





text \<open>
  \<open>DataFrame.drop_duplicates(subset=['date', 'description', 'amount'], keep='first')\<close>:
  a row is dropped when an earlier row has the same three cells (two NaN cells count as the
  same).
\<close>

definition row_key :: "row \<Rightarrow> pystr option \<times> pystr option \<times> real option" where
  "row_key r = (row_date r, row_description r, row_amount r)"

definition drop_duplicates :: "row list \<Rightarrow> row list" where
  "drop_duplicates df = fst (foldl (dedup_step row_key) ([], {}) df)"




section \<open>The subscription type of \<open>saas_analysis.py\<close>\<close>

text \<open>
  The three labels that \<open>detect_subscription_type\<close> returns, as the code points of the
  source: billed by usage, monthly subscription, one-off or other.
\<close>

definition usage_based :: pystr where
  "usage_based = [25353, 20351, 29992, 37327, 35336, 36027]"

definition monthly_subscription :: pystr where
  "monthly_subscription = [26376, 24230, 35330, 38321]"

definition one_time_or_other :: pystr where
  "one_time_or_other = [19968, 27425, 24615, 47, 20854, 20182]"

text \<open>
  \<open>str.upper\<close> follows the case mapping of the Unicode database; it is the parameter
  \<open>upper\<close>. \<open>ascii_upper\<close> is what it does on ASCII strings.
\<close>

definition ascii_upper :: "pystr \<Rightarrow> pystr" where
  "ascii_upper s = map (\<lambda>c. if 97 \<le> c \<and> c \<le> 122 then c - 32 else c) s"

definition detect_subscription_type :: "(pystr \<Rightarrow> pystr) \<Rightarrow> pystr \<Rightarrow> pystr" where
  "detect_subscription_type upper description0 =
     (let desc_upper = upper description0
      in if str_contains (ascii ''USAGE'') desc_upper then usage_based
         else if str_contains (ascii ''SUBSCR'') desc_upper
                 \<or> str_contains (ascii ''SUBSCRIPTION'') desc_upper then monthly_subscription
         else if (\<exists>word\<in>set [ascii ''PRO'', ascii ''PREMIUM'', ascii ''PLUS''].
                    str_contains word desc_upper) then monthly_subscription
         else one_time_or_other)"

section \<open>Reading the PDF\<close>

text \<open>
  What \<open>extract_pdf_data.py\<close> prints and does besides computing, in the order of the
  source: one constructor for each \<open>print\<close> (or block of \<open>print\<close>s in a row), for each file
  that is opened or written, and for the call of \<open>pip\<close>.
\<close>

datatype pdf_output =
    Open_pdf pystr
  | Pdf_has_pages nat
  | Pdf_is_encrypted
  | Decryption_result int
  | Failed_to_decrypt
  | Decryption_error
  | Extracted_characters nat nat
  | Error_extracting_page nat
  | PyPDF2_error
  | Trying_alternative
  | Alternative_failed
  | Pdf_not_found pystr
  | Unexpected_error

datatype plumber_output =
    Trying_pdfplumber
  | Open_with_pdfplumber pystr
  | Opened_with_pdfplumber nat
  | Page_characters nat nat
  | Pdfplumber_not_available
  | Pip_install_pdfplumber
  | Pdfplumber_also_failed
  | Pdfplumber_error

datatype report_output =
    No_transactions_to_analyze
  | Analyzing_transactions nat
  | Generating_visualizations
  | Save_figure string
  | Visualization_error
  | Generating_report
  | Print_report
  | Write_report string
  | To_csv string "row list"
  | Analysis_complete
  | Analysis_failed

datatype event =
    Banner
  | Password_not_set
  | Default_path_warning
  | Show_path pystr
  | Attempting_extraction
  | Reader pdf_output
  | PyPDF2_failed
  | Plumber plumber_output
  | Failed_all_methods
  | Extracted_ok nat
  | Parsing
  | Parse parse_output
  | No_transactions_found
  | Write_file string pystr
  | Saved_for_review
  | Found_transactions nat
  | Categorizing
  | Analyzing
  | Report report_output

text \<open>
  The libraries and the machine the script runs on. For the file at a path:
  \<^item> \<open>open_pdf\<close>: whether \<open>open(pdf_path, 'rb')\<close> succeeds, raises \<open>FileNotFoundError\<close> or
    raises something else;
  \<^item> \<open>strict_reader\<close>: the \<open>PyPDF2.PdfReader\<close> of the file, \<open>None\<close> when building or
    querying it raises; of a reader, whether the file is encrypted, the result of
    \<open>decrypt\<close> for a password (\<open>None\<close> when it raises) and the result of \<open>extract_text\<close>
    for each page (\<open>None\<close> when it raises);
  \<^item> \<open>lenient_texts\<close>: the page texts of the second attempt with \<open>strict=False\<close>, for a
    password, \<open>None\<close> when anything in it raises;
  \<^item> \<open>pdfplumber_installed\<close>, \<open>pip_install_succeeds\<close>, and \<open>pdfplumber_texts\<close>: what
    \<open>page.extract_text()\<close> of \<open>pdfplumber\<close> gives for each page (\<open>None\<close> for a page without
    text), \<open>None\<close> as a whole when opening or reading raises.
  The environment variables, the plotting library (whether drawing and saving the figure
  raises), \<open>re.findall\<close>, the table of decimal digits and the sums of \<open>pandas\<close> complete
  it: \<open>series_sum\<close> and \<open>series_mean\<close> for \<open>Series.sum()\<close> and \<open>Series.mean()\<close>,
  \<open>group_sum\<close> for the sum of one group of \<open>groupby(...).sum()\<close>, each on the list of the
  values. How the library orders and compensates the additions of a long column is its
  own matter.
\<close>

datatype file_status = Readable | Missing | Unreadable

record pdf_reader =
  is_encrypted :: bool
  decrypt :: "pystr \<Rightarrow> int option"
  page_texts :: "pystr option list"

record world =
  getenv :: "string \<Rightarrow> pystr option"
  open_pdf :: "pystr \<Rightarrow> file_status"
  strict_reader :: "pystr \<Rightarrow> pdf_reader option"
  lenient_texts :: "pystr \<Rightarrow> pystr \<Rightarrow> pystr list option"
  pdfplumber_installed :: bool
  pip_install_succeeds :: bool
  pdfplumber_texts :: "pystr \<Rightarrow> pystr \<Rightarrow> pystr option list option"
  plotting_succeeds :: bool
  regex_findall :: "pattern \<Rightarrow> pystr \<Rightarrow> pystr list list"
  decimal_digit :: "nat \<Rightarrow> nat option"
  series_sum :: "real list \<Rightarrow> real"
  series_mean :: "real list \<Rightarrow> real"
  group_sum :: "real list \<Rightarrow> real"








section \<open>Analysis\<close>

text \<open>
  \<open>pd.DataFrame(transactions)\<close> followed by \<open>df['amount_abs'] = df['amount'].abs()\<close>: one
  row for each dictionary, the category cell NaN where the key is absent.
\<close>

definition data_frame :: "transaction list \<Rightarrow> row list" where
  "data_frame ts =
     map (\<lambda>t. \<lparr>row_date = Some (date t), row_description = Some (description t),
               row_amount = Some (amount t), row_amount_abs = Some \<bar>amount t\<bar>,
               row_category = category t\<rparr>) ts"

text \<open>The values of the column \<open>amount_abs\<close>, without the NaN cells that the sums skip.\<close>

definition amount_abs_column :: "row list \<Rightarrow> real list" where
  "amount_abs_column df = List.map_filter row_amount_abs df"

text \<open>
  \<open>df.groupby('category')\<close>: the groups of the rows by category, in the sorted order of the
  categories (strings compare by code points); rows with a NaN category belong to no group.
\<close>

definition groupby_category :: "row list \<Rightarrow> (pystr \<times> row list) list" where
  "groupby_category df =
     map (\<lambda>c. (c, filter (\<lambda>r. row_category r = Some c) df))
       (sort (remdups (List.map_filter row_category df)))"

text \<open>
  \<open>sort_values(ascending=False)\<close> on the sums of the groups. \<open>pandas\<close> leaves the order of
  equal values open; here they keep the order they had.
\<close>

definition sort_values_descending :: "(pystr \<times> real) list \<Rightarrow> (pystr \<times> real) list" where
  "sort_values_descending s = sort_key (\<lambda>p. - snd p) s"

text \<open>\<open>df.nlargest(n, 'amount_abs')\<close>: the first of equal values come first.\<close>

definition nlargest :: "nat \<Rightarrow> row list \<Rightarrow> row list" where
  "nlargest n df =
     take n (sort_key (\<lambda>r. - (case row_amount_abs r of Some a \<Rightarrow> a | None \<Rightarrow> 0)) df)"

record analysis =
  total_spending :: real
  average_transaction :: real
  number_of_transactions :: nat
  category_breakdown :: "(pystr \<times> real) list"
  top_transactions :: "(pystr option \<times> real option \<times> pystr option) list"
  transactions_by_category :: "(pystr \<times> nat) list"

text \<open>
  \<open>analyze_spending\<close>: \<open>(None, None)\<close> on an empty list; \<open>KeyError\<close> from \<open>groupby\<close> when
  no dictionary has the key \<open>category\<close>, so that the frame has no such column.
\<close>

definition analyze_spending ::
  "world \<Rightarrow> transaction list
     \<Rightarrow> (py_error + (analysis \<times> row list) option) \<times> report_output list" where
  "analyze_spending w transactions =
     (let df = data_frame transactions
      in if df = [] then (Inr None, [No_transactions_to_analyze])
         else if list_all (\<lambda>t. category t = None) transactions then
           (Inl KeyError, [Analyzing_transactions (length df)])
         else
           (Inr (Some
              (\<lparr>total_spending = series_sum w (amount_abs_column df),
                average_transaction = series_mean w (amount_abs_column df),
                number_of_transactions = length df,
                category_breakdown =
                  sort_values_descending
                    (map (\<lambda>(c, g). (c, group_sum w (amount_abs_column g)))
                       (groupby_category df)),
                top_transactions =
                  map (\<lambda>r. (row_description r, row_amount r, row_category r)) (nlargest 5 df),
                transactions_by_category =
                  map (\<lambda>(c, g). (c, length g)) (groupby_category df)\<rparr>,
               df)),
            [Analyzing_transactions (length df)]))"

section \<open>The main function of \<open>extract_pdf_data.py\<close>\<close>

text \<open>
  \<open>main\<close>, in four stages. The result is the exception that ends the run, if one does, and
  what was printed and done up to there. The report is drawn, formatted and written by
  library calls on the analysis; only that they happen is recorded.
\<close>

definition analysis_stage :: "world \<Rightarrow> transaction list \<Rightarrow> py_error option \<times> event list" where
  "analysis_stage w transactions =
     (case analyze_spending w transactions of (result, out) \<Rightarrow>
        (case result of
           Inl e \<Rightarrow> (Some e, Analyzing # map Report out)
         | Inr None \<Rightarrow> (None, Analyzing # map Report (out @ [Analysis_failed]))
         | Inr (Some (analysis, df)) \<Rightarrow>
             (None,
              Analyzing # map Report
                (out @
                 [Generating_visualizations,
                  if plotting_succeeds w then Save_figure ''credit_card_analysis.png''
                  else Visualization_error,
                  Generating_report, Print_report,
                  Write_report ''credit_card_analysis_report.txt'',
                  To_csv ''transactions.csv'' df, Analysis_complete]))))"






definition started :: "world \<Rightarrow> event list" where
  "started w =
     (case getenv w ''PDF_PATH'' of
        None \<Rightarrow> [Banner, Default_path_warning, Show_path (ascii ''bank_statement.pdf'')]
      | Some p \<Rightarrow>
          if p = ascii ''your_bank_statement.pdf''
          then [Banner, Default_path_warning, Show_path (ascii ''bank_statement.pdf'')]
          else [Banner, Show_path p])"

fun is_write_file :: "event \<Rightarrow> bool" where
  "is_write_file (Write_file f t) = True"
| "is_write_file e = False"

text \<open>The analysis of a result of \<open>analyze_spending\<close>, and the sum of its breakdown.\<close>

definition analysis_of ::
  "(py_error + (analysis \<times> row list) option) \<times> report_output list \<Rightarrow> analysis option" where
  "analysis_of r = (case fst r of Inr (Some (a, df)) \<Rightarrow> Some a | _ \<Rightarrow> None)"

definition breakdown_total :: "analysis \<Rightarrow> real" where
  "breakdown_total a = sum_list (map snd (category_breakdown a))"

text \<open>The absolute amounts of the transactions of one category, in their order.\<close>

definition group_amounts :: "transaction list \<Rightarrow> pystr \<Rightarrow> real list" where
  "group_amounts ts c = map (\<lambda>t. \<bar>amount t\<bar>) (filter (\<lambda>t. category t = Some c) ts)"

section \<open>First match, as the specification words it\<close>


section \<open>Sample data\<close>

definition ascii_digit :: "nat \<Rightarrow> nat option" where
  "ascii_digit c = (if 48 \<le> c \<and> c \<le> 57 then Some (c - 48) else None)"

definition uber_ride :: transaction where
  "uber_ride =
     \<lparr>date = ascii ''05/14'', description = ascii ''UBER TRIP'', amount = 250, category = None\<rparr>"

definition unknown_shop :: transaction where
  "unknown_shop =
     \<lparr>date = ascii ''05/15'', description = ascii ''XYZ LTD'', amount = 1234, category = None\<rparr>"

definition cursor_row :: row where
  "cursor_row =
     \<lparr>row_date = Some (ascii ''05/16''), row_description = Some (ascii ''CURSOR USAGE''),
      row_amount = Some 660, row_amount_abs = Some 660, row_category = Some (ascii ''Other'')\<rparr>"


definition cid_row :: row where
  "cid_row =
     \<lparr>row_date = Some (ascii ''05/18''), row_description = Some (ascii ''(cid:12)(cid:7)''),
      row_amount = Some 12, row_amount_abs = Some 12, row_category = Some (ascii ''Other'')\<rparr>"


text \<open>
  Matches as \<open>re.findall\<close> could return them for two of the patterns: a plain amount, an
  amount group that is a lone comma, an amount with a minus sign and a thousands separator.
\<close>

definition sample_findall :: "pattern \<Rightarrow> pystr \<Rightarrow> pystr list list" where
  "sample_findall p text =
     (if p = Month_day \<or> p = Generic then
        [[ascii ''05/14'', ascii '' UBER TRIP '', ascii ''250''],
         [ascii ''05/15'', ascii ''XYZ LTD'', ascii '',''],
         [ascii ''05/15'', ascii ''XYZ LTD'', ascii ''-1,234'']]
      else [])"

definition sample_text :: pystr where
  "sample_text = ascii ''05/14  UBER TRIP  250 05/15 XYZ LTD , 05/15 XYZ LTD -1,234''"

text \<open>
  Three machines; their sums are those of a short column. On the first no variable is set, no file exists and \<open>pdfplumber\<close> cannot
  read anything. The second has the password but no \<open>PDF_PATH\<close>. The third has both
  variables and an encrypted statement of one page.
\<close>

definition bare_world :: world where
  "bare_world =
     \<lparr>getenv = (\<lambda>v. None), open_pdf = (\<lambda>p. Missing), strict_reader = (\<lambda>p. None),
      lenient_texts = (\<lambda>p pw. None), pdfplumber_installed = True,
      pip_install_succeeds = True, pdfplumber_texts = (\<lambda>p pw. None),
      plotting_succeeds = True, regex_findall = sample_findall,
      decimal_digit = ascii_digit, series_sum = float_sum, series_mean = float_mean,
      group_sum = float_sum\<rparr>"





text \<open>
  Three small purchases, of 0.10, 0.20 and 0.15: the amounts are the doubles that \<open>float\<close>
  gives for these strings.
\<close>

definition small_purchases :: "transaction list" where
  "small_purchases =
     [\<lparr>date = ascii ''05/14'', description = ascii ''UBER TRIP'',
       amount = 3602879701896397 / 2 ^ 55, category = None\<rparr>,
      \<lparr>date = ascii ''05/15'', description = ascii ''XYZ LTD'',
       amount = 3602879701896397 / 2 ^ 54, category = None\<rparr>,
      \<lparr>date = ascii ''05/16'', description = ascii ''UBER EATS'',
       amount = 5404319552844595 / 2 ^ 55, category = None\<rparr>]"

text \<open>The purchases above, and the two transactions of the beginning, with their categories.\<close>

definition small_categorized :: "transaction list" where
  "small_categorized =
     [\<lparr>date = ascii ''05/14'', description = ascii ''UBER TRIP'',
       amount = 3602879701896397 / 2 ^ 55, category = Some (ascii ''Transportation'')\<rparr>,
      \<lparr>date = ascii ''05/15'', description = ascii ''XYZ LTD'',
       amount = 3602879701896397 / 2 ^ 54, category = Some (ascii ''Other'')\<rparr>,
      \<lparr>date = ascii ''05/16'', description = ascii ''UBER EATS'',
       amount = 5404319552844595 / 2 ^ 55, category = Some (ascii ''Transportation'')\<rparr>]"

definition two_categorized :: "transaction list" where
  "two_categorized =
     [uber_ride\<lparr>category := Some (ascii ''Transportation'')\<rparr>,
      unknown_shop\<lparr>category := Some (ascii ''Other'')\<rparr>]"

section \<open>Rounding to a double\<close>

lemma to_double_between:
  assumes "2 powr of_int e \<le> \<bar>x\<bar>" and "\<bar>x\<bar> < 2 powr (of_int e + 1)"
  shows "to_double x =
           of_int (round_half_even (x / 2 powr (of_int e - 52))) * 2 powr (of_int e - 52)"
proof -
  have "(0::real) < 2 powr of_int e" by simp
  with assms(1) have pos: "0 < \<bar>x\<bar>" by linarith
  then have nz: "x \<noteq> 0" by auto
  have "of_int e \<le> log 2 \<bar>x\<bar>" using assms(1) pos by (simp add: le_log_iff)
  moreover have "log 2 \<bar>x\<bar> < of_int e + 1" using assms(2) pos by (simp add: log_less_iff)
  ultimately have "\<lfloor>log 2 \<bar>x\<bar>\<rfloor> = e" by (simp add: floor_eq_iff)
  with nz show ?thesis by (simp add: to_double_def Let_def)
qed

lemma to_double_nonneg: "0 \<le> x \<Longrightarrow> 0 \<le> to_double x"
  by (auto simp: to_double_def Let_def round_half_even_def intro!: mult_nonneg_nonneg)

lemma to_double_quarter:
  assumes "1 / 4 \<le> x" "x < 1 / 2"
  shows "to_double x = of_int (round_half_even (x * 2 ^ 54)) / 2 ^ 54"
  using to_double_between[of "-2" x] assms
  by (simp add: powr_neg_numeral)

lemma to_double_eighth:
  assumes "1 / 8 \<le> x" "x < 1 / 4"
  shows "to_double x = of_int (round_half_even (x * 2 ^ 55)) / 2 ^ 55"
  using to_double_between[of "-3" x] assms
  by (simp add: powr_neg_numeral)

lemma to_double_sixteenth:
  assumes "1 / 16 \<le> x" "x < 1 / 8"
  shows "to_double x = of_int (round_half_even (x * 2 ^ 56)) / 2 ^ 56"
  using to_double_between[of "-4" x] assms
  by (simp add: powr_neg_numeral)

lemma to_double_128:
  assumes "128 \<le> x" "x < 256"
  shows "to_double x = of_int (round_half_even (x * 2 ^ 45)) / 2 ^ 45"
  using to_double_between[of 7 x] assms
  by (simp add: powr_neg_numeral)

lemma to_double_1024:
  assumes "1024 \<le> x" "x < 2048"
  shows "to_double x = of_int (round_half_even (x * 2 ^ 42)) / 2 ^ 42"
  using to_double_between[of 10 x] assms
  by (simp add: powr_neg_numeral)

lemma to_double_whole: "to_double 250 = 250" "to_double 1234 = 1234" "to_double 1484 = 1484"
  by (simp_all add: to_double_128 to_double_1024 round_half_even_def)

section \<open>Substrings and the categorization loops\<close>

lemma str_contains_iff: "str_contains k d \<longleftrightarrow> (\<exists>pre post. d = pre @ k @ post)"
proof -
  have "str_contains k d = sublist k d"
    by (induction d) (auto simp: sublist_Cons_right)
  then show ?thesis by (simp add: sublist_def)
qed










section \<open>Removing duplicates\<close>

lemma find_append_case:
  "find P (xs @ ys) = (case find P xs of Some x \<Rightarrow> Some x | None \<Rightarrow> find P ys)"
  by (induction xs) auto

lemma dedup_step_pair:
  "dedup_step key (u, s) t = (if key t \<in> s then (u, s) else (u @ [t], insert (key t) s))"
  by (simp add: dedup_step_def)

lemma dedup_foldl_find:
  "find (\<lambda>t. key t = x) (fst (foldl (dedup_step key) (u, s) ts)) =
     (case find (\<lambda>t. key t = x) u of
        Some t \<Rightarrow> Some t
      | None \<Rightarrow> if x \<in> s then None else find (\<lambda>t. key t = x) ts)"
proof (induction ts arbitrary: u s)
  case Nil
  then show ?case by (simp split: option.splits)
next
  case (Cons t ts)
  show ?case
    by (simp add: dedup_step_pair Cons.IH find_append_case split: option.splits)
qed

lemma dedup_foldl_count:
  "key ` set u \<subseteq> s \<Longrightarrow>
   length (filter (\<lambda>t. key t = x) (fst (foldl (dedup_step key) (u, s) ts))) =
     length (filter (\<lambda>t. key t = x) u) + (if x \<in> s \<or> x \<notin> key ` set ts then 0 else 1)"
proof (induction ts arbitrary: u s)
  case Nil
  then show ?case by simp
next
  case (Cons t ts)
  show ?case
  proof (cases "key t \<in> s")
    case True
    with Cons.prems Cons.IH[of u s] show ?thesis by (auto simp: dedup_step_pair)
  next
    case False
    have "key ` set (u @ [t]) \<subseteq> insert (key t) s" using Cons.prems by auto
    from Cons.IH[OF this] False show ?thesis by (auto simp: dedup_step_pair)
  qed
qed

lemma dedup_foldl_subseq:
  "\<exists>vs. fst (foldl (dedup_step key) (u, s) ts) = u @ vs \<and> subseq vs ts"
proof (induction ts arbitrary: u s)
  case Nil
  then show ?case by simp
next
  case (Cons t ts)
  show ?case
  proof (cases "key t \<in> s")
    case True
    with Cons.IH[of u s] show ?thesis by (auto simp: dedup_step_pair)
  next
    case False
    from Cons.IH[of "u @ [t]" "insert (key t) s"] obtain vs where
      "fst (foldl (dedup_step key) (u @ [t], insert (key t) s) ts) = (u @ [t]) @ vs" "subseq vs ts"
      by blast
    with False show ?thesis by (auto simp: dedup_step_pair intro!: exI[of _ "t # vs"])
  qed
qed

lemma dedup_count:
  "length (filter (\<lambda>t. key t = x) (fst (foldl (dedup_step key) ([], {}) ts))) =
     (if x \<in> key ` set ts then 1 else 0)"
  using dedup_foldl_count[of key "[]" "{}" x ts] by simp

lemma dedup_find:
  "find (\<lambda>t. key t = x) (fst (foldl (dedup_step key) ([], {}) ts)) = find (\<lambda>t. key t = x) ts"
  by (simp add: dedup_foldl_find)

lemma dedup_subseq: "subseq (fst (foldl (dedup_step key) ([], {}) ts)) ts"
  using dedup_foldl_subseq[of key "[]" "{}" ts] by auto

text \<open>
  Claim C2. Deduplication loses no record with a triple of its own: in the output of the
  loop that ends \<open>parse_transactions\<close>, and in that of \<open>drop_duplicates\<close> in
  \<open>clean_transactions\<close>, every triple (date, description, amount) of the input occurs
  exactly once and no other triple occurs; the record kept for a triple is the first one of
  the input with it; the output is a subsequence of the input. Two records are therefore
  merged only when their triples are equal.
\<close>

theorem deduplication_keeps_first_of_each_triple:
  "(\<forall>k. length (filter (\<lambda>t. txn_key t = k) (remove_duplicates ts)) =
          (if k \<in> txn_key ` set ts then 1 else 0))
   \<and> (\<forall>k. find (\<lambda>t. txn_key t = k) (remove_duplicates ts) = find (\<lambda>t. txn_key t = k) ts)
   \<and> subseq (remove_duplicates ts) ts
   \<and> (\<forall>k. length (filter (\<lambda>r. row_key r = k) (drop_duplicates df)) =
          (if k \<in> row_key ` set df then 1 else 0))
   \<and> (\<forall>k. find (\<lambda>r. row_key r = k) (drop_duplicates df) = find (\<lambda>r. row_key r = k) df)
   \<and> subseq (drop_duplicates df) df"
  unfolding remove_duplicates_def drop_duplicates_def
  by (intro conjI allI dedup_count dedup_find dedup_subseq)

theorem deduplication_keeps_first_of_each_triple_witness:
  "remove_duplicates [uber_ride, unknown_shop, uber_ride] = [uber_ride, unknown_shop]
   \<and> length (filter (\<lambda>t. txn_key t = txn_key unknown_shop)
         (remove_duplicates [uber_ride, unknown_shop, uber_ride])) = 1
   \<and> drop_duplicates [cursor_row, cid_row, cursor_row] = [cursor_row, cid_row]
   \<and> find (\<lambda>r. row_key r = row_key cursor_row) (drop_duplicates [cursor_row, cid_row, cursor_row])
       = Some cursor_row"
  using deduplication_keeps_first_of_each_triple
          [of "[uber_ride, unknown_shop, uber_ride]" "[cursor_row, cid_row, cursor_row]"]
  by (simp add: remove_duplicates_def drop_duplicates_def dedup_step_def txn_key_def row_key_def
        uber_ride_def unknown_shop_def cursor_row_def cid_row_def ascii_def)

section \<open>The cleaning pass\<close>







section \<open>Parsing\<close>

lemma match_step_pair:
  "match_step dv (ts, out) m = (ts @ fst (parse_match dv m), out @ snd (parse_match dv m))"
  by (simp add: match_step_def split: prod.splits)

lemma foldl_match_step:
  "foldl (match_step dv) (ts, out) ms =
     (ts @ concat (map (\<lambda>m. fst (parse_match dv m)) ms),
      out @ concat (map (\<lambda>m. snd (parse_match dv m)) ms))"
  by (induction ms arbitrary: ts out) (simp_all add: match_step_pair)

lemma pattern_step_pair:
  "pattern_step dv findall text (ts, out) (n, p) =
     (ts @ concat (map (\<lambda>m. fst (parse_match dv m)) (findall p text)),
      out @ Trying_pattern n p # Found_matches (length (findall p text)) n
          # concat (map (\<lambda>m. snd (parse_match dv m)) (findall p text)))"
  by (simp add: pattern_step_def Let_def foldl_match_step)

lemma foldl_pattern_step:
  "foldl (pattern_step dv findall text) (ts, out) nps =
     (ts @ concat (map (\<lambda>np. concat (map (\<lambda>m. fst (parse_match dv m)) (findall (snd np) text))) nps),
      out @ concat (map (\<lambda>np. Trying_pattern (fst np) (snd np)
                # Found_matches (length (findall (snd np) text)) (fst np)
                # concat (map (\<lambda>m. snd (parse_match dv m)) (findall (snd np) text))) nps))"
proof (induction nps arbitrary: ts out)
  case Nil
  show ?case by simp
next
  case (Cons np nps)
  obtain n p where np: "np = (n, p)" by (cases np)
  show ?case by (simp add: np pattern_step_pair Cons.IH)
qed

lemma collect_matches_fst:
  "fst (collect_matches dv findall text) =
     concat (map (\<lambda>p. concat (map (\<lambda>m. fst (parse_match dv m)) (findall p text))) patterns)"
proof -
  have "map (\<lambda>np. concat (map (\<lambda>m. fst (parse_match dv m)) (findall (snd np) text)))
          (zip [1 ..< Suc (length patterns)] patterns) =
        map (\<lambda>p. concat (map (\<lambda>m. fst (parse_match dv m)) (findall p text)))
          (map snd (zip [1 ..< Suc (length patterns)] patterns))"
    by (simp add: comp_def)
  also have "map snd (zip [1 ..< Suc (length patterns)] patterns) = patterns"
    by (simp add: patterns_def)
  finally show ?thesis
    by (simp add: collect_matches_def foldl_pattern_step)
qed

lemma collect_matches_snd:
  "snd (collect_matches dv findall text) =
     Debug_text (take 2000 text) #
     concat (map (\<lambda>np. Trying_pattern (fst np) (snd np)
                # Found_matches (length (findall (snd np) text)) (fst np)
                # concat (map (\<lambda>m. snd (parse_match dv m)) (findall (snd np) text)))
              (zip [1 ..< Suc (length patterns)] patterns))"
  by (simp add: collect_matches_def foldl_pattern_step)

lemma parse_transactions_fst:
  "fst (parse_transactions dv findall text) =
     remove_duplicates (fst (collect_matches dv findall text))"
  by (simp add: parse_transactions_def Let_def split: prod.splits)


text \<open>
  Claim C4. \<open>parse_transactions\<close> tries the six patterns in their order and collects the
  matches of every one of them, whatever the earlier patterns found: the transactions
  collected are, pattern after pattern and match after match, what each match yields on its
  own, and the console shows for every pattern that it is tried, how many matches it found
  and the output of each match. A match with at least three groups whose cleaned amount
  converts to a float yields one transaction with that amount; one whose cleaned amount is
  not empty and does not convert yields no transaction and the message for the failed
  match, and the loop goes on with the next match. The result is the collected list without
  its duplicates.
\<close>

theorem parse_collects_every_match:
  "fst (collect_matches dv findall text) =
     concat (map (\<lambda>p. concat (map (\<lambda>m. fst (parse_match dv m)) (findall p text))) patterns)
   \<and> snd (collect_matches dv findall text) =
       Debug_text (take 2000 text) #
       concat (map (\<lambda>np. Trying_pattern (fst np) (snd np)
                  # Found_matches (length (findall (snd np) text)) (fst np)
                  # concat (map (\<lambda>m. snd (parse_match dv m)) (findall (snd np) text)))
                (zip [1 ..< Suc (length patterns)] patterns))
   \<and> fst (parse_transactions dv findall text) =
       remove_duplicates (fst (collect_matches dv findall text))
   \<and> (3 \<le> length m \<and> clean_amount dv (strip (m ! (length m - 1))) \<noteq> []
        \<and> py_float dv (remove_commas (clean_amount dv (strip (m ! (length m - 1))))) = Inr a \<longrightarrow>
        parse_match dv m =
          ([\<lparr>date = m ! 0, description = strip (m ! (length m - 2)), amount = a,
             category = None\<rparr>],
           [Added_transaction (m ! 0) (take 30 (strip (m ! (length m - 2)))) a]))
   \<and> (3 \<le> length m \<and> clean_amount dv (strip (m ! (length m - 1))) \<noteq> []
        \<and> py_float dv (remove_commas (clean_amount dv (strip (m ! (length m - 1))))) = Inl e \<longrightarrow>
        parse_match dv m = ([], [Error_parsing_match m]))"
  by (simp add: collect_matches_fst collect_matches_snd parse_transactions_fst
        parse_match_def Let_def)

lemma sample_matches:
  "parse_match ascii_digit [ascii ''05/14'', ascii '' UBER TRIP '', ascii ''250''] =
     ([uber_ride], [Added_transaction (ascii ''05/14'') (ascii ''UBER TRIP'') 250])"
  "parse_match ascii_digit [ascii ''05/15'', ascii ''XYZ LTD'', ascii '',''] =
     ([], [Error_parsing_match [ascii ''05/15'', ascii ''XYZ LTD'', ascii '','']])"
  "parse_match ascii_digit [ascii ''05/15'', ascii ''XYZ LTD'', ascii ''-1,234''] =
     ([unknown_shop], [Added_transaction (ascii ''05/15'') (ascii ''XYZ LTD'') 1234])"
  by (simp_all add: parse_match_def Let_def strip_def py_isspace_def clean_amount_def
        remove_commas_def py_float_def digits_value_def ascii_digit_def ascii_def
        uber_ride_def unknown_shop_def to_double_whole)

lemma sample_collect:
  "fst (collect_matches ascii_digit sample_findall sample_text) =
     [uber_ride, unknown_shop, uber_ride, unknown_shop]"
  by (simp add: collect_matches_fst patterns_def sample_findall_def sample_matches)

lemma sample_parse:
  "fst (parse_transactions ascii_digit sample_findall sample_text) =
     [uber_ride, unknown_shop]"
  by (simp add: parse_transactions_fst sample_collect remove_duplicates_def dedup_step_def
        txn_key_def uber_ride_def unknown_shop_def ascii_def)

theorem parse_collects_every_match_witness:
  "fst (collect_matches ascii_digit sample_findall sample_text) =
     [uber_ride, unknown_shop, uber_ride, unknown_shop]
   \<and> fst (parse_transactions ascii_digit sample_findall sample_text) =
       [uber_ride, unknown_shop]
   \<and> py_float ascii_digit (remove_commas (clean_amount ascii_digit (strip (ascii '','')))) =
       Inl ValueError
   \<and> parse_match ascii_digit [ascii ''05/15'', ascii ''XYZ LTD'', ascii '',''] =
       ([], [Error_parsing_match [ascii ''05/15'', ascii ''XYZ LTD'', ascii '','']])"
proof -
  have f: "py_float ascii_digit (remove_commas (clean_amount ascii_digit (strip (ascii '','')))) =
           Inl ValueError"
    by (simp add: strip_def py_isspace_def clean_amount_def remove_commas_def py_float_def
          ascii_digit_def ascii_def)
  have c: "clean_amount ascii_digit (strip (ascii '','')) \<noteq> []"
    by (simp add: strip_def py_isspace_def clean_amount_def ascii_def)
  from parse_collects_every_match
         [of ascii_digit sample_findall sample_text
             "[ascii ''05/15'', ascii ''XYZ LTD'', ascii '','']" 0 ValueError]
       f c
  have "parse_match ascii_digit [ascii ''05/15'', ascii ''XYZ LTD'', ascii '',''] =
       ([], [Error_parsing_match [ascii ''05/15'', ascii ''XYZ LTD'', ascii '','']])"
    by simp
  with f sample_collect sample_parse show ?thesis by simp
qed

section \<open>The main function\<close>









section \<open>Failed extraction\<close>






lemma no_write_in_extraction [simp]:
  "filter is_write_file (map Reader xs) = []" "filter is_write_file (map Plumber ys) = []"
  by (induction xs) (simp_all add: filter_map comp_def)

lemma started_no_write [simp]: "filter is_write_file (started w) = []"
  by (simp add: started_def split: option.splits)










section \<open>Records after categorization\<close>

lemma categorize_fields:
  "length (categorize_transactions ts) = length ts"
  "map date (categorize_transactions ts) = map date ts"
  "map description (categorize_transactions ts) = map description ts"
  "map amount (categorize_transactions ts) = map amount ts"
  by (simp_all add: categorize_transactions_def comp_def)

lemma categorize_sets_category:
  "t \<in> set (categorize_transactions ts) \<Longrightarrow> category t \<noteq> None"
  by (auto simp: categorize_transactions_def)

lemma analyze_categorized:
  assumes "ts \<noteq> []"
  shows "\<exists>a. analyze_spending w (categorize_transactions ts) =
           (Inr (Some (a, data_frame (categorize_transactions ts))),
            [Analyzing_transactions (length ts)])"
proof -
  let ?cs = "categorize_transactions ts"
  from assms have ne: "?cs \<noteq> []" by (simp add: categorize_transactions_def)
  then obtain c cs where c: "?cs = c # cs" by (cases ?cs) auto
  then have "c \<in> set ?cs" by simp
  then have "category c \<noteq> None" by (rule categorize_sets_category)
  with c have "\<not> list_all (\<lambda>t. category t = None) ?cs" by simp
  with ne show ?thesis
    by (simp add: analyze_spending_def Let_def data_frame_def categorize_fields)
qed

text \<open>
  Claim C7. \<open>categorize_transactions\<close> sets the category of each transaction and nothing
  else: the list keeps its length and the dates, descriptions and amounts of its records.
  What follows in \<open>main\<close> leaves the categorized records as they are: \<open>analyze_spending\<close>
  copies them into a frame whose rows carry the same date, description, amount and category
  (with the new column \<open>amount_abs\<close> beside them), and that frame is what is written to
  \<open>transactions.csv\<close>.
\<close>

theorem records_unchanged_after_categorization:
  "length (categorize_transactions ts) = length ts
   \<and> map date (categorize_transactions ts) = map date ts
   \<and> map description (categorize_transactions ts) = map description ts
   \<and> map amount (categorize_transactions ts) = map amount ts
   \<and> map (\<lambda>r. (row_date r, row_description r, row_amount r, row_category r)) (data_frame cs) =
       map (\<lambda>t. (Some (date t), Some (description t), Some (amount t), category t)) cs
   \<and> (ts \<noteq> [] \<longrightarrow>
        (\<exists>a. fst (analyze_spending w (categorize_transactions ts)) =
               Inr (Some (a, data_frame (categorize_transactions ts))))
        \<and> Report (To_csv ''transactions.csv'' (data_frame (categorize_transactions ts)))
            \<in> set (snd (analysis_stage w (categorize_transactions ts))))"
proof (intro conjI impI)
  assume ne: "ts \<noteq> []"
  from analyze_categorized[OF ne, of w] obtain a where
    a: "analyze_spending w (categorize_transactions ts) =
           (Inr (Some (a, data_frame (categorize_transactions ts))),
            [Analyzing_transactions (length ts)])"
    by blast
  then show "\<exists>a. fst (analyze_spending w (categorize_transactions ts)) =
               Inr (Some (a, data_frame (categorize_transactions ts)))"
    by auto
  from a show "Report (To_csv ''transactions.csv'' (data_frame (categorize_transactions ts)))
            \<in> set (snd (analysis_stage w (categorize_transactions ts)))"
    by (simp add: analysis_stage_def)
qed (simp_all add: categorize_fields data_frame_def comp_def)

theorem records_unchanged_after_categorization_witness:
  "[uber_ride, unknown_shop] \<noteq> []
   \<and> categorize_transactions [uber_ride, unknown_shop] =
       [uber_ride\<lparr>category := Some (ascii ''Transportation'')\<rparr>,
        unknown_shop\<lparr>category := Some (ascii ''Other'')\<rparr>]
   \<and> Report (To_csv ''transactions.csv''
         (data_frame [uber_ride\<lparr>category := Some (ascii ''Transportation'')\<rparr>,
                      unknown_shop\<lparr>category := Some (ascii ''Other'')\<rparr>]))
       \<in> set (snd (analysis_stage bare_world
                      [uber_ride\<lparr>category := Some (ascii ''Transportation'')\<rparr>,
                       unknown_shop\<lparr>category := Some (ascii ''Other'')\<rparr>]))
   \<and> map amount (categorize_transactions [uber_ride, unknown_shop]) = [250, 1234]"
proof -
  have e: "categorize_transactions [uber_ride, unknown_shop] =
      [uber_ride\<lparr>category := Some (ascii ''Transportation'')\<rparr>,
       unknown_shop\<lparr>category := Some (ascii ''Other'')\<rparr>]"
    by (simp add: categorize_transactions_def uber_ride_def unknown_shop_def
          assign_category_def categories_def ascii_def)
  from records_unchanged_after_categorization[of "[uber_ride, unknown_shop]" "[]" bare_world]
  show ?thesis
    unfolding e by (simp add: uber_ride_def unknown_shop_def)
qed

section \<open>Totals of the analysis\<close>

lemma sum_list_insort_key:
  "sum_list (map f (insort_key k x xs)) = f x + sum_list (map f xs)"
  for f :: "'a \<Rightarrow> real"
  by (induction xs) auto

lemma sum_list_sort_key:
  "sum_list (map f (sort_key k xs)) = sum_list (map f xs)"
  for f :: "'a \<Rightarrow> real"
  by (induction xs) (simp_all add: sum_list_insort_key)

lemma sum_list_none:
  "a \<notin> set cs \<Longrightarrow> sum_list (map (\<lambda>c. if a = c then v else 0) cs) = 0"
  for v :: real
  by (induction cs) auto

lemma sum_list_single:
  "distinct cs \<Longrightarrow> a \<in> set cs \<Longrightarrow> sum_list (map (\<lambda>c. if a = c then v else 0) cs) = v"
  for v :: real
  by (induction cs) (auto simp: sum_list_none)

lemma group_sums_partition:
  fixes f :: "transaction \<Rightarrow> real"
  assumes "distinct cs" and "\<forall>t\<in>set ts. \<exists>c\<in>set cs. category t = Some c"
  shows "sum_list (map (\<lambda>c. sum_list (map f (filter (\<lambda>t. category t = Some c) ts))) cs) =
         sum_list (map f ts)"
  using assms(2)
proof (induction ts)
  case Nil
  show ?case by simp
next
  case (Cons t ts)
  from Cons.prems obtain c0 where c0: "c0 \<in> set cs" "category t = Some c0" by auto
  have "sum_list (map f (filter (\<lambda>x. category x = Some c) (t # ts))) =
        (if c0 = c then f t else 0) + sum_list (map f (filter (\<lambda>x. category x = Some c) ts))" for c
    using c0 by auto
  then have "sum_list (map (\<lambda>c. sum_list (map f (filter (\<lambda>x. category x = Some c) (t # ts)))) cs)
      = sum_list (map (\<lambda>c. if c0 = c then f t else 0) cs)
        + sum_list (map (\<lambda>c. sum_list (map f (filter (\<lambda>x. category x = Some c) ts))) cs)"
    by (simp add: sum_list_addf)
  also have "\<dots> = f t + sum_list (map f ts)"
    using Cons.IH Cons.prems sum_list_single[OF assms(1) c0(1)] by simp
  finally show ?case by simp
qed

lemma distinct_map_sort_key: "distinct (map f (sort_key k xs)) = distinct (map f xs)"
  by (simp add: distinct_map)

lemma column_of_frame:
  "amount_abs_column (data_frame ts) = map (\<lambda>t. \<bar>amount t\<bar>) ts"
  by (induction ts) (simp_all add: amount_abs_column_def data_frame_def)

lemma column_of_group:
  "amount_abs_column (filter (\<lambda>r. row_category r = Some c) (data_frame ts)) =
     map (\<lambda>t. \<bar>amount t\<bar>) (filter (\<lambda>t. category t = Some c) ts)"
  by (induction ts) (simp_all add: amount_abs_column_def data_frame_def)

lemma categories_of_frame:
  "List.map_filter row_category (data_frame ts) = List.map_filter category ts"
  by (induction ts) (simp_all add: data_frame_def split: option.splits)

lemma breakdown_descending:
  "sorted (rev (map snd (sort_values_descending s)))"
proof -
  have "sorted (map (\<lambda>p. - snd p) (sort_key (\<lambda>p. - snd p) s))"
    by (rule sorted_sort_key)
  then have "sorted_wrt (\<lambda>x y. snd y \<le> snd x) (sort_key (\<lambda>p. - snd p) s)"
    by (simp add: sorted_wrt_map)
  then show ?thesis
    by (simp add: sort_values_descending_def sorted_wrt_rev sorted_wrt_map flip: rev_map)
qed

lemma analyze_spending_categorized:
  assumes "ts \<noteq> []" and "\<forall>t\<in>set ts. category t \<noteq> None"
  shows "fst (analyze_spending w ts) =
     Inr (Some
        (\<lparr>total_spending = series_sum w (map (\<lambda>t. \<bar>amount t\<bar>) ts),
          average_transaction = series_mean w (map (\<lambda>t. \<bar>amount t\<bar>) ts),
          number_of_transactions = length ts,
          category_breakdown =
            sort_values_descending
              (map (\<lambda>c. (c, group_sum w (group_amounts ts c)))
                 (sort (remdups (List.map_filter category ts)))),
          top_transactions =
            map (\<lambda>r. (row_description r, row_amount r, row_category r))
              (nlargest 5 (data_frame ts)),
          transactions_by_category =
            map (\<lambda>c. (c, length (filter (\<lambda>t. category t = Some c) ts)))
              (sort (remdups (List.map_filter category ts)))\<rparr>,
         data_frame ts))"
proof -
  from assms obtain t ts' where "ts = t # ts'" "category t \<noteq> None" by (cases ts) auto
  then have n: "\<not> list_all (\<lambda>t. category t = None) ts" by simp
  from assms(1) have ne: "data_frame ts \<noteq> []" by (simp add: data_frame_def)
  have len: "length (filter (\<lambda>r. row_category r = Some c) (data_frame ts)) =
             length (filter (\<lambda>t. category t = Some c) ts)" for c
    by (induction ts) (simp_all add: data_frame_def)
  have dl: "length (data_frame ts) = length ts" by (simp add: data_frame_def)
  show ?thesis
    using n ne
    by (simp add: analyze_spending_def Let_def groupby_category_def comp_def column_of_frame
          column_of_group categories_of_frame group_amounts_def len dl)
qed


text \<open>
  Claim C8, as amended. For a list of categorized transactions that is not empty,
  \<open>total_spending\<close> is the sum of the absolute amounts as the library computes it;
  \<open>category_breakdown\<close> has one entry for each category that occurs, with the sum of the
  absolute amounts of the transactions of that category as the library computes it, and
  its amounts descend. When these sums are exact, \<open>total_spending\<close> is the sum of the
  absolute amounts and the sum of the amounts of \<open>category_breakdown\<close>.
\<close>

theorem spending_totals:
  "ts \<noteq> [] \<and> (\<forall>t\<in>set ts. category t \<noteq> None) \<longrightarrow>
     (\<exists>a df. fst (analyze_spending w ts) = Inr (Some (a, df))
        \<and> total_spending a = series_sum w (map (\<lambda>t. \<bar>amount t\<bar>) ts)
        \<and> distinct (map fst (category_breakdown a))
        \<and> set (map fst (category_breakdown a)) = {c. \<exists>t\<in>set ts. category t = Some c}
        \<and> (\<forall>(c, v)\<in>set (category_breakdown a). v = group_sum w (group_amounts ts c))
        \<and> sorted (rev (map snd (category_breakdown a)))
        \<and> (series_sum w (map (\<lambda>t. \<bar>amount t\<bar>) ts) = sum_list (map (\<lambda>t. \<bar>amount t\<bar>) ts)
             \<and> (\<forall>c. group_sum w (group_amounts ts c) = sum_list (group_amounts ts c)) \<longrightarrow>
             total_spending a = sum_list (map (\<lambda>t. \<bar>amount t\<bar>) ts)
             \<and> total_spending a = breakdown_total a))"
proof (intro impI)
  assume h: "ts \<noteq> [] \<and> (\<forall>t\<in>set ts. category t \<noteq> None)"
  let ?cs = "sort (remdups (List.map_filter category ts))"
  let ?groups = "map (\<lambda>c. (c, group_sum w (group_amounts ts c))) ?cs"
  let ?b = "sort_values_descending ?groups"
  obtain a where a: "fst (analyze_spending w ts) = Inr (Some (a, data_frame ts))"
    and t: "total_spending a = series_sum w (map (\<lambda>t. \<bar>amount t\<bar>) ts)"
    and b: "category_breakdown a = ?b"
    using analyze_spending_categorized[of ts w] h by simp
  have mg: "map fst ?groups = ?cs" by (simp add: comp_def)
  have cs: "set ?cs = {c. \<exists>t\<in>set ts. category t = Some c}"
    by (force simp: List.map_filter_def)
  have d: "distinct (map fst ?b)"
  proof -
    have "distinct (map fst ?groups)" unfolding mg by simp
    then show ?thesis
      unfolding sort_values_descending_def distinct_map_sort_key .
  qed
  have sf: "set (map fst ?b) = {c. \<exists>t\<in>set ts. category t = Some c}"
  proof -
    have "set (map fst ?b) = fst ` set ?groups"
      by (simp add: sort_values_descending_def)
    also have "\<dots> = set (map fst ?groups)" by (simp only: set_map)
    finally show ?thesis unfolding mg cs .
  qed
  have v: "\<forall>(c, v)\<in>set ?b. v = group_sum w (group_amounts ts c)"
    by (auto simp: sort_values_descending_def)
  have ex: "total_spending a = sum_list (map (\<lambda>t. \<bar>amount t\<bar>) ts)
             \<and> total_spending a = breakdown_total a"
    if e1: "series_sum w (map (\<lambda>t. \<bar>amount t\<bar>) ts) = sum_list (map (\<lambda>t. \<bar>amount t\<bar>) ts)"
      and e2: "\<forall>c. group_sum w (group_amounts ts c) = sum_list (group_amounts ts c)"
  proof -
    have "\<forall>t\<in>set ts. \<exists>c\<in>set ?cs. category t = Some c"
      using h unfolding cs by fastforce
    then have "sum_list (map (\<lambda>c. sum_list (group_amounts ts c)) ?cs) =
               sum_list (map (\<lambda>t. \<bar>amount t\<bar>) ts)"
      unfolding group_amounts_def by (intro group_sums_partition) simp_all
    moreover have "breakdown_total a = sum_list (map (\<lambda>c. sum_list (group_amounts ts c)) ?cs)"
      using e2 by (simp add: breakdown_total_def b sort_values_descending_def
                     sum_list_sort_key comp_def)
    ultimately show ?thesis using t e1 by simp
  qed
  show "\<exists>a df. fst (analyze_spending w ts) = Inr (Some (a, df))
        \<and> total_spending a = series_sum w (map (\<lambda>t. \<bar>amount t\<bar>) ts)
        \<and> distinct (map fst (category_breakdown a))
        \<and> set (map fst (category_breakdown a)) = {c. \<exists>t\<in>set ts. category t = Some c}
        \<and> (\<forall>(c, v)\<in>set (category_breakdown a). v = group_sum w (group_amounts ts c))
        \<and> sorted (rev (map snd (category_breakdown a)))
        \<and> (series_sum w (map (\<lambda>t. \<bar>amount t\<bar>) ts) = sum_list (map (\<lambda>t. \<bar>amount t\<bar>) ts)
             \<and> (\<forall>c. group_sum w (group_amounts ts c) = sum_list (group_amounts ts c)) \<longrightarrow>
             total_spending a = sum_list (map (\<lambda>t. \<bar>amount t\<bar>) ts)
             \<and> total_spending a = breakdown_total a)"
    using a t d sf v ex breakdown_descending[of ?groups] unfolding b[symmetric]
    by (intro exI[of _ a] exI[of _ "data_frame ts"]) blast
qed

lemma small_doubles:
  "to_double (3602879701896397 / 2 ^ 55) = 3602879701896397 / 2 ^ 55"
  "to_double (3602879701896397 / 2 ^ 54) = 3602879701896397 / 2 ^ 54"
  "to_double (3602879701896397 / 2 ^ 55 + 3602879701896397 / 2 ^ 54) = 5404319552844596 / 2 ^ 54"
  "to_double (5404319552844596 / 2 ^ 54 + 5404319552844595 / 2 ^ 55) = 8106479329266894 / 2 ^ 54"
  "to_double (3602879701896397 / 2 ^ 55 + 5404319552844595 / 2 ^ 55) = 1 / 4"
      apply (subst to_double_sixteenth; simp add: round_half_even_def)
     apply (subst to_double_eighth; simp add: round_half_even_def)
    apply (subst to_double_quarter; simp add: round_half_even_def)
   apply (subst to_double_quarter; simp add: round_half_even_def)
  apply (subst to_double_quarter; simp add: round_half_even_def)
  done

lemma small_sums:
  "float_sum [3602879701896397 / 2 ^ 55, 3602879701896397 / 2 ^ 54, 5404319552844595 / 2 ^ 55] =
     8106479329266894 / 2 ^ 54"
  "float_sum [3602879701896397 / 2 ^ 55, 5404319552844595 / 2 ^ 55] = 1 / 4"
  "float_sum [3602879701896397 / 2 ^ 54] = 3602879701896397 / 2 ^ 54"
  by (simp_all only: float_sum_def foldl.simps add_0 small_doubles)

lemma small_categorize: "categorize_transactions small_purchases = small_categorized"
  by (simp add: categorize_transactions_def small_purchases_def small_categorized_def
        assign_category_def categories_def ascii_def)

lemma small_parsed:
  "py_float ascii_digit (ascii ''0.10'') = Inr (3602879701896397 / 2 ^ 55)"
  "py_float ascii_digit (ascii ''0.20'') = Inr (3602879701896397 / 2 ^ 54)"
  "py_float ascii_digit (ascii ''0.15'') = Inr (5404319552844595 / 2 ^ 55)"
    apply (simp add: py_float_def ascii_digit_def ascii_def digits_value_def)
    apply (subst to_double_sixteenth; simp add: round_half_even_def)
   apply (simp add: py_float_def ascii_digit_def ascii_def digits_value_def)
   apply (subst to_double_eighth; simp add: round_half_even_def)
  apply (simp add: py_float_def ascii_digit_def ascii_def digits_value_def)
  apply (subst to_double_eighth; simp add: round_half_even_def)
  done

lemma small_groups:
  "sort (remdups (List.map_filter category small_categorized)) =
     [ascii ''Other'', ascii ''Transportation'']"
  "group_amounts small_categorized (ascii ''Other'') = [3602879701896397 / 2 ^ 54]"
  "group_amounts small_categorized (ascii ''Transportation'') =
     [3602879701896397 / 2 ^ 55, 5404319552844595 / 2 ^ 55]"
  "map (\<lambda>t. \<bar>amount t\<bar>) small_categorized =
     [3602879701896397 / 2 ^ 55, 3602879701896397 / 2 ^ 54, 5404319552844595 / 2 ^ 55]"
  by (simp_all add: small_categorized_def group_amounts_def ascii_def)

lemma analysis_of_categorized:
  assumes "ts \<noteq> []" and "\<forall>t\<in>set ts. category t \<noteq> None"
  shows "\<exists>a. analysis_of (analyze_spending w ts) = Some a
           \<and> total_spending a = series_sum w (map (\<lambda>t. \<bar>amount t\<bar>) ts)
           \<and> category_breakdown a =
               sort_values_descending
                 (map (\<lambda>c. (c, group_sum w (group_amounts ts c)))
                    (sort (remdups (List.map_filter category ts))))"
  unfolding analysis_of_def analyze_spending_categorized[OF assms] by simp

lemma small_analysis:
  "\<exists>a. analysis_of (analyze_spending bare_world small_categorized) = Some a
     \<and> total_spending a = 8106479329266894 / 2 ^ 54
     \<and> category_breakdown a =
         [(ascii ''Transportation'', 1 / 4), (ascii ''Other'', 3602879701896397 / 2 ^ 54)]"
proof -
  have ne: "small_categorized \<noteq> []" "\<forall>t\<in>set small_categorized. category t \<noteq> None"
    by (simp_all add: small_categorized_def)
  have w: "series_sum bare_world = float_sum" "group_sum bare_world = float_sum"
    by (simp_all add: bare_world_def)
  have s: "sort_values_descending
             [(ascii ''Other'', 3602879701896397 / 2 ^ 54), (ascii ''Transportation'', 1 / 4)] =
           [(ascii ''Transportation'', 1 / 4), (ascii ''Other'', 3602879701896397 / 2 ^ 54)]"
    by (simp add: sort_values_descending_def)
  from analysis_of_categorized[OF ne, of bare_world] show ?thesis
    unfolding w small_groups list.map small_sums s .
qed

text \<open>
  The claim as it stands fails where an addition rounds. For purchases of 0.10, 0.20 and
  0.15, the second of another category than the two others, the total is
  0.45000000000000007: the sum of 0.1 and 0.2 rounds up, and so does the sum with 0.15.
  The two groups add up to 0.25 and 0.2, and these to 0.45, which is also the sum of the
  three amounts in exact arithmetic.
\<close>

theorem float_total_differs_counterexample:
  "map_option total_spending (analysis_of (analyze_spending bare_world small_categorized)) =
     Some (8106479329266894 / 2 ^ 54)
   \<and> map_option breakdown_total (analysis_of (analyze_spending bare_world small_categorized)) =
       Some (8106479329266893 / 2 ^ 54)
   \<and> map_option total_spending (analysis_of (analyze_spending bare_world small_categorized)) \<noteq>
       map_option breakdown_total (analysis_of (analyze_spending bare_world small_categorized))
   \<and> sum_list (map (\<lambda>t. \<bar>amount t\<bar>) small_categorized) = 8106479329266893 / 2 ^ 54
   \<and> categorize_transactions small_purchases = small_categorized
   \<and> map amount small_purchases =
       [3602879701896397 / 2 ^ 55, 3602879701896397 / 2 ^ 54, 5404319552844595 / 2 ^ 55]
   \<and> py_float ascii_digit (ascii ''0.10'') = Inr (3602879701896397 / 2 ^ 55)
   \<and> py_float ascii_digit (ascii ''0.20'') = Inr (3602879701896397 / 2 ^ 54)
   \<and> py_float ascii_digit (ascii ''0.15'') = Inr (5404319552844595 / 2 ^ 55)"
proof -
  have m: "map amount small_purchases =
       [3602879701896397 / 2 ^ 55, 3602879701896397 / 2 ^ 54, 5404319552844595 / 2 ^ 55]"
    by (simp add: small_purchases_def)
  from small_analysis obtain a where
    a: "analysis_of (analyze_spending bare_world small_categorized) = Some a"
    and t: "total_spending a = 8106479329266894 / 2 ^ 54"
    and c: "category_breakdown a =
         [(ascii ''Transportation'', 1 / 4), (ascii ''Other'', 3602879701896397 / 2 ^ 54)]"
    by blast
  from c have b: "breakdown_total a = 8106479329266893 / 2 ^ 54"
    by (simp add: breakdown_total_def)
  have e: "sum_list (map (\<lambda>t. \<bar>amount t\<bar>) small_categorized) = 8106479329266893 / 2 ^ 54"
    unfolding small_groups by simp
  from t b have "total_spending a \<noteq> breakdown_total a" by simp
  with a t b e m small_categorize small_parsed show ?thesis by simp
qed

theorem spending_totals_witness:
  "two_categorized \<noteq> []
   \<and> list_all (\<lambda>t. category t \<noteq> None) two_categorized
   \<and> map_option total_spending (analysis_of (analyze_spending bare_world two_categorized)) =
       Some 1484
   \<and> map_option breakdown_total (analysis_of (analyze_spending bare_world two_categorized)) =
       Some 1484
   \<and> map_option category_breakdown (analysis_of (analyze_spending bare_world two_categorized)) =
       Some [(ascii ''Other'', 1234), (ascii ''Transportation'', 250)]"
proof -
  have ne: "two_categorized \<noteq> []" "\<forall>t\<in>set two_categorized. category t \<noteq> None"
    by (simp_all add: two_categorized_def)
  have w: "series_sum bare_world = float_sum" "group_sum bare_world = float_sum"
    by (simp_all add: bare_world_def)
  have am: "map (\<lambda>t. \<bar>amount t\<bar>) two_categorized = [250, 1234]"
    by (simp add: two_categorized_def uber_ride_def unknown_shop_def)
  have fs: "float_sum [250, 1234] = 1484" "float_sum [250] = 250" "float_sum [1234] = 1234"
    "float_sum [] = 0"
    by (simp_all add: float_sum_def to_double_whole)
  have ga: "group_amounts two_categorized c =
      (if c = ascii ''Transportation'' then [250] else if c = ascii ''Other'' then [1234] else [])"
    for c
    by (auto simp: group_amounts_def two_categorized_def uber_ride_def unknown_shop_def ascii_def)
  have e1: "series_sum bare_world (map (\<lambda>t. \<bar>amount t\<bar>) two_categorized) =
            sum_list (map (\<lambda>t. \<bar>amount t\<bar>) two_categorized)"
    unfolding w am by (simp add: fs)
  have e2: "\<forall>c. group_sum bare_world (group_amounts two_categorized c) =
                sum_list (group_amounts two_categorized c)"
    unfolding w ga by (simp add: fs)
  from spending_totals[of two_categorized bare_world] ne e1 e2
  obtain a df where
    a: "fst (analyze_spending bare_world two_categorized) = Inr (Some (a, df))"
    and t: "total_spending a = sum_list (map (\<lambda>t. \<bar>amount t\<bar>) two_categorized)"
    and b: "total_spending a = breakdown_total a"
    by blast
  have cs: "sort (remdups (List.map_filter category two_categorized)) =
            [ascii ''Other'', ascii ''Transportation'']"
    by (simp add: two_categorized_def uber_ride_def unknown_shop_def ascii_def)
  have cb: "category_breakdown a = [(ascii ''Other'', 1234), (ascii ''Transportation'', 250)]"
    using a unfolding analyze_spending_categorized[OF ne] w cs
    by (auto simp: ga fs sort_values_descending_def ascii_def)
  from a t b cb ne show ?thesis
    by (simp add: analysis_of_def am list_all_iff)
qed

section \<open>Parsed amounts\<close>

lemma digits_value_nonneg: "0 \<le> real (digits_value dv s)"
  by simp

lemma py_float_nonneg: "py_float dv s = Inr a \<Longrightarrow> 0 \<le> a"
  by (auto simp: py_float_def Let_def split: if_splits intro!: to_double_nonneg)

lemma parse_match_nonneg: "t \<in> set (fst (parse_match dv m)) \<Longrightarrow> 0 \<le> amount t"
  by (auto simp: parse_match_def Let_def split: if_splits sum.splits dest: py_float_nonneg)

text \<open>
  Claim C9. Every transaction that \<open>parse_transactions\<close> returns has a non-negative
  amount: the cleaned amount string holds decimal digits, commas and dots only, so a minus
  sign never reaches the conversion.
\<close>

theorem parsed_amounts_non_negative:
  "(\<forall>t\<in>set (fst (parse_transactions dv findall text)). 0 \<le> amount t)
   \<and> (\<forall>c\<in>set (clean_amount dv s). dv c \<noteq> None \<or> c = 44 \<or> c = 46)
   \<and> (dv 45 = None \<longrightarrow> 45 \<notin> set (clean_amount dv s))"
proof (intro conjI ballI impI)
  fix t assume "t \<in> set (fst (parse_transactions dv findall text))"
  then have "t \<in> set (fst (collect_matches dv findall text))"
    using list_emb_set[OF dedup_subseq[of txn_key "fst (collect_matches dv findall text)"], of t]
    by (auto simp: parse_transactions_fst remove_duplicates_def)
  then show "0 \<le> amount t"
    by (auto simp: collect_matches_fst dest: parse_match_nonneg)
qed (auto simp: clean_amount_def)

theorem parsed_amounts_non_negative_witness:
  "map amount (fst (parse_transactions ascii_digit sample_findall sample_text)) =
     [250, 1234]
   \<and> 0 \<le> amount uber_ride \<and> 0 \<le> amount unknown_shop
   \<and> ascii_digit 45 = None
   \<and> clean_amount ascii_digit (ascii ''-1,234'') = ascii ''1,234''"
  using parsed_amounts_non_negative[of ascii_digit sample_findall sample_text "ascii ''-1,234''"]
  by (simp add: sample_parse uber_ride_def unknown_shop_def ascii_digit_def clean_amount_def
        ascii_def)

section \<open>Subscription types\<close>

lemma labels_distinct: "distinct [usage_based, monthly_subscription, one_time_or_other]"
  by (simp add: usage_based_def monthly_subscription_def one_time_or_other_def)

text \<open>
  Claim C10. \<open>detect_subscription_type\<close> returns one of three distinct labels for every
  description: the usage label whenever the upper-cased description contains \<open>USAGE\<close>,
  whatever else it contains; otherwise the monthly label when it contains \<open>SUBSCR\<close>,
  \<open>SUBSCRIPTION\<close>, \<open>PRO\<close>, \<open>PREMIUM\<close> or \<open>PLUS\<close>; otherwise the one-off label.
\<close>

theorem detect_subscription_type_three_labels:
  "detect_subscription_type upper d \<in> {usage_based, monthly_subscription, one_time_or_other}
   \<and> distinct [usage_based, monthly_subscription, one_time_or_other]
   \<and> ((\<exists>pre post. upper d = pre @ ascii ''USAGE'' @ post) \<longrightarrow>
        detect_subscription_type upper d = usage_based)
   \<and> (\<not> (\<exists>pre post. upper d = pre @ ascii ''USAGE'' @ post)
        \<and> (\<exists>w\<in>{ascii ''SUBSCR'', ascii ''SUBSCRIPTION'', ascii ''PRO'', ascii ''PREMIUM'',
                  ascii ''PLUS''}. \<exists>pre post. upper d = pre @ w @ post) \<longrightarrow>
        detect_subscription_type upper d = monthly_subscription)
   \<and> (\<not> (\<exists>w\<in>{ascii ''USAGE'', ascii ''SUBSCR'', ascii ''SUBSCRIPTION'', ascii ''PRO'',
                  ascii ''PREMIUM'', ascii ''PLUS''}. \<exists>pre post. upper d = pre @ w @ post) \<longrightarrow>
        detect_subscription_type upper d = one_time_or_other)"
  unfolding detect_subscription_type_def Let_def str_contains_iff
  using labels_distinct by auto

theorem detect_subscription_type_three_labels_witness:
  "detect_subscription_type ascii_upper (ascii ''Cursor Pro usage'') = usage_based
   \<and> ascii_upper (ascii ''Cursor Pro usage'') = [] @ ascii ''CURSOR PRO '' @ ascii ''USAGE'' @ []
   \<and> detect_subscription_type ascii_upper (ascii ''ChatGPT Plus'') = monthly_subscription
   \<and> detect_subscription_type ascii_upper (ascii ''Gandi domain'') = one_time_or_other"
  using detect_subscription_type_three_labels[of ascii_upper "ascii ''Cursor Pro usage''"]
  by (simp add: detect_subscription_type_def ascii_upper_def ascii_def)

end
